theory Spec2Isabelle
  imports Main
begin

section \<open>JavaScript values and the built-ins the code calls\<close>

text \<open>
  The route handler and the embedding client treat the data they receive dynamically:
  they test values for truthiness, interpolate them into template literals, call
  \<open>Array.isArray\<close>, \<open>Array.prototype.join\<close> and \<open>JSON.stringify\<close> on them. The values are
  modelled as JSON values. Strings are the UTF-8 bytes of the JavaScript string. Numbers
  are the integers (a double that holds an integer of magnitude at most 2^53 prints as
  its decimal digits); larger and fractional numbers are outside the model. \<open>undefined\<close> is not a JSON value: where the
  code can meet it (a missing property) the model uses \<open>None\<close>. The pairs of an object
  are its own properties in enumeration order.
\<close>

datatype jsval =
    JNull
  | JBool bool
  | JNum int
  | JStr string
  | JArr "jsval list"
  | JObj "(string \<times> jsval) list"

text \<open>ToBoolean: \<open>null\<close>, \<open>false\<close>, \<open>0\<close> and \<open>""\<close> are falsy, every array and object is truthy.\<close>

fun truthy :: "jsval \<Rightarrow> bool" where
  "truthy JNull = False"
| "truthy (JBool b) = b"
| "truthy (JNum n) = (n \<noteq> 0)"
| "truthy (JStr s) = (s \<noteq> [])"
| "truthy (JArr xs) = True"
| "truthy (JObj kvs) = True"

fun join_strings :: "string \<Rightarrow> string list \<Rightarrow> string" where
  "join_strings sep [] = []"
| "join_strings sep [x] = x"
| "join_strings sep (x # y # ys) = x @ sep @ join_strings sep (y # ys)"

fun nat_digits :: "nat \<Rightarrow> string" where
  "nat_digits n =
     (if n < 10 then [''0123456789'' ! n]
      else nat_digits (n div 10) @ [''0123456789'' ! (n mod 10)])"

declare nat_digits.simps [simp del]

definition number_to_string :: "int \<Rightarrow> string" where
  "number_to_string i =
     (if i < 0 then ''-'' @ nat_digits (nat (- i)) else nat_digits (nat i))"

text \<open>
  ToString, as a template literal applies it. An array prints as its elements joined by a
  comma, where \<open>null\<close> elements print as the empty string.
\<close>

fun toString :: "jsval \<Rightarrow> string" where
  "toString JNull = ''null''"
| "toString (JBool b) = (if b then ''true'' else ''false'')"
| "toString (JNum n) = number_to_string n"
| "toString (JStr s) = s"
| "toString (JArr xs) =
     join_strings '','' (map (\<lambda>v. if v = JNull then [] else toString v) xs)"
| "toString (JObj kvs) = ''[object Object]''"

text \<open>\<open>xs.join(sep)\<close> on the elements of an array.\<close>

definition array_join :: "jsval list \<Rightarrow> string \<Rightarrow> string" where
  "array_join xs sep =
     join_strings sep (map (\<lambda>v. if v = JNull then [] else toString v) xs)"

text \<open>
  \<open>JSON.stringify\<close>: a string is quoted, with the quote, the backslash and the control
  characters escaped; arrays and objects are printed without white space.
\<close>

definition quote_char :: "char \<Rightarrow> string" where
  "quote_char c =
     (if c = CHR 0x22 then [CHR 0x5C, CHR 0x22]
      else if c = CHR 0x5C then [CHR 0x5C, CHR 0x5C]
      else if c = CHR 0x08 then [CHR 0x5C, CHR ''b'']
      else if c = CHR 0x0C then [CHR 0x5C, CHR ''f'']
      else if c = CHR 0x0A then [CHR 0x5C, CHR ''n'']
      else if c = CHR 0x0D then [CHR 0x5C, CHR ''r'']
      else if c = CHR 0x09 then [CHR 0x5C, CHR ''t'']
      else if (of_char c :: nat) < 32
        then [CHR 0x5C] @ ''u00'' @
             [''0123456789abcdef'' ! (of_char c div 16), ''0123456789abcdef'' ! (of_char c mod 16)]
      else [c])"

definition quote_json :: "string \<Rightarrow> string" where
  "quote_json s = [CHR 0x22] @ concat (map quote_char s) @ [CHR 0x22]"

fun stringify :: "jsval \<Rightarrow> string" where
  "stringify JNull = ''null''"
| "stringify (JBool b) = (if b then ''true'' else ''false'')"
| "stringify (JNum n) = number_to_string n"
| "stringify (JStr s) = quote_json s"
| "stringify (JArr xs) = ''['' @ join_strings '','' (map stringify xs) @ '']''"
| "stringify (JObj kvs) =
     ''{'' @ join_strings '','' (map (\<lambda>(k, v). quote_json k @ '':'' @ stringify v) kvs) @ ''}''"

text \<open>\<open>s.includes(pat)\<close> on strings.\<close>

fun starts_with :: "string \<Rightarrow> string \<Rightarrow> bool" where
  "starts_with s [] = True"
| "starts_with [] (p # ps) = False"
| "starts_with (c # cs) (p # ps) = (c = p \<and> starts_with cs ps)"

fun string_includes :: "string \<Rightarrow> string \<Rightarrow> bool" where
  "string_includes [] pat = (pat = [])"
| "string_includes (c # cs) pat = (starts_with (c # cs) pat \<or> string_includes cs pat)"

text \<open>
  What a \<open>throw\<close> carries: an \<open>Error\<close> with its message, or any other value. The catch
  blocks of the code read \<open>error instanceof Error ? error.message : String(error)\<close>.
\<close>

datatype js_exn = JsError string | JsThrown jsval

definition error_message :: "js_exn \<Rightarrow> string" where
  "error_message e = (case e of JsError m \<Rightarrow> m | JsThrown v \<Rightarrow> toString v)"

text \<open>
  Property reads on a parsed JSON value, for the keys the code reads (\<open>data\<close>, \<open>0\<close>,
  \<open>embedding\<close>). \<open>None\<close> is \<open>undefined\<close>. Reading a property of \<open>null\<close> throws a TypeError,
  which the caller of \<open>member\<close> handles before the call. The first code unit of a
  non-empty string is a string again.
\<close>

fun member :: "jsval \<Rightarrow> string \<Rightarrow> jsval option" where
  "member (JObj kvs) k = map_of kvs k"
| "member v k = None"

fun index0 :: "jsval \<Rightarrow> jsval option" where
  "index0 (JArr xs) = (case xs of [] \<Rightarrow> None | x # _ \<Rightarrow> Some x)"
| "index0 (JStr s) = (case s of [] \<Rightarrow> None | c # _ \<Rightarrow> Some (JStr [c]))"
| "index0 (JObj kvs) = map_of kvs ''0''"
| "index0 v = None"

text \<open>Optional chaining \<open>v?.[0]\<close> and \<open>v?.k\<close> on a value that may be \<open>undefined\<close> or \<open>null\<close>.\<close>

definition opt_index0 :: "jsval option \<Rightarrow> jsval option" where
  "opt_index0 v = (case v of None \<Rightarrow> None | Some JNull \<Rightarrow> None | Some w \<Rightarrow> index0 w)"

definition opt_member :: "jsval option \<Rightarrow> string \<Rightarrow> jsval option" where
  "opt_member v k = (case v of None \<Rightarrow> None | Some JNull \<Rightarrow> None | Some w \<Rightarrow> member w k)"

section \<open>The embedding client (src/lib/ai/embeddings.ts)\<close>

text \<open>
  The HTTP response of the embedding service: the fields the client reads, the bytes of
  the body, and what \<open>response.json()\<close> resolves to (\<open>Inl\<close> when it rejects, as it does
  for a body that is not JSON).
\<close>

record http_response =
  ok :: bool
  status :: nat
  statusText :: string
  body :: string
  json :: "js_exn + jsval"

record fetch_request =
  url :: string
  authorization :: string
  content :: string

text \<open>
  The process environment and the network, as the client sees them: the API key, and
  the outcome of the k-th call of \<open>fetch\<close> (\<open>Inl\<close> when the promise rejects).
\<close>

record network =
  OPENAI_API_KEY :: "string option"
  fetch :: "nat \<Rightarrow> js_exn + http_response"

text \<open>
  The body of the \<open>try\<close> block of \<open>generateEmbedding\<close>. The second argument is the list of
  requests sent so far; the function returns it extended by the requests it sends.
\<close>

definition embedding_request :: "string \<Rightarrow> string \<Rightarrow> fetch_request" where
  "embedding_request apiKey input =
     \<lparr>url = ''https://api.openai.com/v1/embeddings'',
      authorization = ''Bearer '' @ apiKey,
      content = stringify (JObj [(''model'', JStr ''text-embedding-3-small''),
                                 (''input'', JStr input)])\<rparr>"

definition read_embedding :: "jsval \<Rightarrow> js_exn + jsval" where
  "read_embedding data =
     (if data = JNull
      then Inl (JsError
             (''Cannot read properties of null (reading '' @ [CHR 0x27] @ ''data'' @ [CHR 0x27] @ '')''))
      else (case opt_member (opt_index0 (member data ''data'')) ''embedding'' of
              None \<Rightarrow> Inl (JsError ''Failed to generate embedding: no embedding in response'')
            | Some embedding \<Rightarrow>
                if \<not> truthy embedding
                then Inl (JsError ''Failed to generate embedding: no embedding in response'')
                else Inr embedding))"

definition generateEmbedding_try ::
  "network \<Rightarrow> string \<Rightarrow> fetch_request list \<Rightarrow> (js_exn + jsval) \<times> fetch_request list" where
  "generateEmbedding_try net input sent =
     (case OPENAI_API_KEY net of
        None \<Rightarrow> (Inl (JsError ''OPENAI_API_KEY is not set''), sent)
      | Some apiKey \<Rightarrow>
          if apiKey = [] then (Inl (JsError ''OPENAI_API_KEY is not set''), sent)
          else
            (case fetch net (length sent) of
               Inl e \<Rightarrow> (Inl e, sent @ [embedding_request apiKey input])
             | Inr response \<Rightarrow>
                 if \<not> ok response
                 then
                   (let error = (case json response of Inl _ \<Rightarrow> JObj [] | Inr v \<Rightarrow> v)
                    in (Inl (JsError
                         (''OpenAI API error: '' @ number_to_string (int (status response)) @ '' '' @
                          statusText response @ '' - '' @ stringify error)),
                        sent @ [embedding_request apiKey input]))
                 else
                   (case json response of
                      Inl e \<Rightarrow> (Inl e, sent @ [embedding_request apiKey input])
                    | Inr data \<Rightarrow> (read_embedding data, sent @ [embedding_request apiKey input]))))"

text \<open>The function itself: whatever the \<open>try\<close> block throws is wrapped and thrown again.\<close>

definition generateEmbedding ::
  "network \<Rightarrow> string \<Rightarrow> fetch_request list \<Rightarrow> (js_exn + jsval) \<times> fetch_request list" where
  "generateEmbedding net input sent =
     (case generateEmbedding_try net input sent of
        (Inl error, sent') \<Rightarrow>
          (Inl (JsError (''Failed to generate embedding: '' @ error_message error)), sent')
      | (Inr embedding, sent') \<Rightarrow> (Inr embedding, sent'))"

section \<open>The prompt assembler (POST, the body of \<open>execute\<close>)\<close>

text \<open>
  A row of the catalog as the similarity search returns it. The declaration of the row
  type is not under src/; the code reads these fifteen properties and treats each of them
  dynamically, so each is a JSON value (\<open>JNull\<close> when the column is empty). The property
  \<open>notes\<close> is written \<open>notes'\<close>, the plain name being reserved.
\<close>

record perfume =
  perfume_name :: jsval
  brand :: jsval
  description :: jsval
  rating :: jsval
  rating_count :: jsval
  notes' :: jsval
  season :: jsval
  gender :: jsval
  longevity :: jsval
  sillage :: jsval
  timeOfDay :: jsval
  valueForMoney :: jsval
  pros :: jsval
  cons :: jsval
  similarPerfumes :: jsval

text \<open>
  \<open>Array.isArray(v) ? v.join(", ") : JSON.stringify(v)\<close>: the arrays are the values built
  with \<open>JArr\<close>.
\<close>

definition list_or_json :: "jsval \<Rightarrow> string" where
  "list_or_json v = (case v of JArr xs \<Rightarrow> array_join xs '', '' | _ \<Rightarrow> stringify v)"

text \<open>The block of one perfume: the arrow function mapped over the search result.\<close>

definition format_perfume :: "perfume \<Rightarrow> string" where
  "format_perfume p =
     ''**'' @ toString (perfume_name p) @ ''**'' @
       (if truthy (brand p) then '' ('' @ toString (brand p) @ '')'' else []) @ [CHR 0x0A] @
     (if truthy (description p) then ''Opis: '' @ toString (description p) @ [CHR 0x0A] else []) @
     (if truthy (rating p)
      then [CHR 0xE2, CHR 0xAD, CHR 0x90] @ '' Ocena: '' @ toString (rating p) @ ''/5'' @
           (if truthy (rating_count p) then '' ('' @ toString (rating_count p) @ '' opinii)'' else []) @
           [CHR 0x0A]
      else []) @
     (if truthy (notes' p) then ''Nuty zapachowe: '' @ list_or_json (notes' p) @ [CHR 0x0A] else []) @
     (if truthy (season p) then ''Sezon: '' @ list_or_json (season p) @ [CHR 0x0A] else []) @
     (if truthy (gender p) then ''Dla: '' @ list_or_json (gender p) @ [CHR 0x0A] else []) @
     (if truthy (longevity p)
      then ''Trwa'' @ [CHR 0xC5, CHR 0x82] @ ''o'' @ [CHR 0xC5, CHR 0x9B, CHR 0xC4, CHR 0x87] @
           '': '' @ stringify (longevity p) @ [CHR 0x0A] else []) @
     (if truthy (sillage p) then ''Sillage: '' @ stringify (sillage p) @ [CHR 0x0A] else []) @
     (if truthy (timeOfDay p) then ''Pora dnia: '' @ list_or_json (timeOfDay p) @ [CHR 0x0A] else []) @
     (if truthy (valueForMoney p)
      then ''Stosunek jako'' @ [CHR 0xC5, CHR 0x9B] @ ''ci do ceny: '' @ stringify (valueForMoney p) @ [CHR 0x0A] else []) @
     (if truthy (pros p) then ''Zalety: '' @ list_or_json (pros p) @ [CHR 0x0A] else []) @
     (if truthy (cons p) then ''Wady: '' @ list_or_json (cons p) @ [CHR 0x0A] else []) @
     (if truthy (similarPerfumes p)
      then ''Podobne perfumy: '' @ list_or_json (similarPerfumes p) @ [CHR 0x0A] else [])"

text \<open>The separator of \<open>.join\<close>, and the context built from the search result.\<close>

definition block_separator :: string where
  "block_separator = [CHR 0x0A, CHR 0x0A] @ ''---'' @ [CHR 0x0A, CHR 0x0A]"

definition perfumesContext :: "perfume list \<Rightarrow> string" where
  "perfumesContext perfumes =
     (if length perfumes > 0 then join_strings block_separator (map format_perfume perfumes)
      else [])"

text \<open>
  The pieces of the template literal \<open>systemPrompt\<close>, as UTF-8 bytes: the text before the
  interpolation, the two texts around \<open>perfumesContext\<close> in its first branch, the
  sentence of its second branch, and the text after it.
\<close>

definition prompt_head :: string where
  "prompt_head =
     ''Jeste'' @ [CHR 0xC5, CHR 0x9B] @
     '' ekspertem w dziedzinie perfum - profesjonalnym asystentem perfumowym '' @ ''z g'' @
     [CHR 0xC5, CHR 0x82, CHR 0xC4, CHR 0x99] @ ''bok'' @ [CHR 0xC4, CHR 0x85] @ '' wiedz'' @
     [CHR 0xC4, CHR 0x85] @ '' o zapachach, nutach zapachowych, kompozycjach i trendach w '' @
     [CHR 0xC5, CHR 0x9B] @ ''wiecie perfum.'' @ [CHR 0x0A, CHR 0x0A] @ ''Twoje zadania:'' @
     [CHR 0x0A] @ ''1. Pomagasz u'' @ [CHR 0xC5, CHR 0xBC] @ ''ytkownikom znale'' @
     [CHR 0xC5, CHR 0xBA, CHR 0xC4, CHR 0x87] @
     '' idealne perfumy na podstawie ich preferencji, okazji, bud'' @ [CHR 0xC5, CHR 0xBC] @
     ''etu i stylu '' @ [CHR 0xC5, CHR 0xBC] @ ''ycia'' @ [CHR 0x0A] @ ''2. Wyja'' @
     [CHR 0xC5, CHR 0x9B] @ ''niasz charakterystyk'' @ [CHR 0xC4, CHR 0x99] @ '' zapach'' @
     [CHR 0xC3, CHR 0xB3] @ ''w, nuty zapachowe i kompozycje'' @ [CHR 0x0A] @
     ''3. Rekomendujesz perfumy na podstawie podobie'' @ [CHR 0xC5, CHR 0x84] @
     ''stwa, okazji, sezonu i innych kryteri'' @ [CHR 0xC3, CHR 0xB3] @ ''w'' @ [CHR 0x0A] @
     ''4. Por'' @ [CHR 0xC3, CHR 0xB3] @ ''wnujesz perfumy i pomagasz w wyborze'' @
     [CHR 0x0A] @ ''5. Udzielasz profesjonalnych porad dotycz'' @ [CHR 0xC4, CHR 0x85] @
     ''cych aplikacji, przechowywania i piel'' @ [CHR 0xC4, CHR 0x99] @ ''gnacji perfum'' @
     [CHR 0x0A, CHR 0x0A] @ ''Styl komunikacji:'' @ [CHR 0x0A] @ ''- B'' @
     [CHR 0xC4, CHR 0x85] @ ''d'' @ [CHR 0xC5, CHR 0xBA] @
     '' profesjonalny, ale przyjazny i przyst'' @ [CHR 0xC4, CHR 0x99] @ ''pny'' @ [CHR 0x0A] @
     ''- U'' @ [CHR 0xC5, CHR 0xBC] @ ''ywaj terminologii perfumeryjnej, ale wyja'' @
     [CHR 0xC5, CHR 0x9B] @ ''niaj trudne poj'' @ [CHR 0xC4, CHR 0x99] @ ''cia'' @ [CHR 0x0A] @
     ''- B'' @ [CHR 0xC4, CHR 0x85] @ ''d'' @ [CHR 0xC5, CHR 0xBA] @
     '' entuzjastyczny, ale obiektywny'' @ [CHR 0x0A] @ ''- Zawsze odpowiadaj po polsku'' @
     [CHR 0x0A] @ ''- Formatuj odpowiedzi w spos'' @ [CHR 0xC3, CHR 0xB3] @ ''b czytelny, u'' @
     [CHR 0xC5, CHR 0xBC] @ ''ywaj'' @ [CHR 0xC4, CHR 0x85] @ ''c akapit'' @
     [CHR 0xC3, CHR 0xB3] @ ''w i list gdy to pomocne'' @ [CHR 0x0A, CHR 0x0A]"

definition context_intro :: string where
  "context_intro = ''Znalezione perfumy w bazie danych:'' @ [CHR 0x0A, CHR 0x0A]"

definition context_outro :: string where
  "context_outro =
     [CHR 0x0A, CHR 0x0A] @ ''U'' @ [CHR 0xC5, CHR 0xBC] @
     ''yj tych informacji, aby udzieli'' @ [CHR 0xC4, CHR 0x87] @ '' szczeg'' @
     [CHR 0xC3, CHR 0xB3, CHR 0xC5, CHR 0x82] @ ''owej i pomocnej odpowiedzi. Je'' @
     [CHR 0xC5, CHR 0x9B] @ ''li u'' @ [CHR 0xC5, CHR 0xBC] @
     ''ytkownik pyta o konkretne perfumy, skup si'' @ [CHR 0xC4, CHR 0x99] @
     '' na tych znalezionych w bazie. Je'' @ [CHR 0xC5, CHR 0x9B] @ ''li pyta og'' @
     [CHR 0xC3, CHR 0xB3] @ ''lnie, mo'' @ [CHR 0xC5, CHR 0xBC] @ ''esz u'' @
     [CHR 0xC5, CHR 0xBC] @ ''y'' @ [CHR 0xC4, CHR 0x87] @
     '' znalezionych perfum jako przyk'' @ [CHR 0xC5, CHR 0x82] @ ''ad'' @
     [CHR 0xC3, CHR 0xB3] @ ''w lub punktu wyj'' @ [CHR 0xC5, CHR 0x9B] @ ''cia.''"

definition fallback_sentence :: string where
  "fallback_sentence =
     ''Nie znaleziono perfum pasuj'' @ [CHR 0xC4, CHR 0x85] @
     ''cych do zapytania w bazie danych. Odpowiedz pomocnie, sugeruj'' @ [CHR 0xC4, CHR 0x85] @
     ''c inne podej'' @ [CHR 0xC5, CHR 0x9B] @
     ''cie do wyszukiwania lub zadaj pytania pomocnicze, aby lepiej '' @ ''zrozumie'' @
     [CHR 0xC4, CHR 0x87] @ '' potrzeby u'' @ [CHR 0xC5, CHR 0xBC] @ ''ytkownika.''"

definition prompt_tail :: string where
  "prompt_tail =
     [CHR 0x0A, CHR 0x0A] @ ''Pami'' @ [CHR 0xC4, CHR 0x99] @
     ''taj: Zawsze odpowiadaj po polsku i b'' @ [CHR 0xC4, CHR 0x85] @ ''d'' @
     [CHR 0xC5, CHR 0xBA] @ '' pomocny, profesjonalny i entuzjastyczny w temacie perfum.''"

definition systemPrompt :: "perfume list \<Rightarrow> string" where
  "systemPrompt perfumes =
     prompt_head @
     (if length perfumes > 0
      then context_intro @ perfumesContext perfumes @ context_outro
      else fallback_sentence) @
     prompt_tail"

text \<open>The text the \<open>catch\<close> block of \<open>execute\<close> writes into the stream.\<close>

definition apology :: string where
  "apology =
     ''Przepraszam, wyst'' @ [CHR 0xC4, CHR 0x85] @ ''pi'' @ [CHR 0xC5, CHR 0x82] @ '' b'' @
     [CHR 0xC5, CHR 0x82, CHR 0xC4, CHR 0x85] @ ''d podczas wyszukiwania perfum. Spr'' @
     [CHR 0xC3, CHR 0xB3] @ ''buj ponownie.''"

section \<open>The data of the route handler (src/unnamed/part_000)\<close>

text \<open>
  A usage object is a plain object: its own properties in enumeration order, with
  distinct keys.
\<close>

type_synonym usage = "(string \<times> jsval) list"

record session_user =
  user_id :: string
  user_type :: string

record session =
  user :: "session_user option"

record chat =
  chat_id :: string
  userId :: string
  title :: string
  visibility :: string
  lastContext :: "usage option"

text \<open>A message as the client sends it and as the stream library hands it back.\<close>

record ui_message =
  ui_id :: string
  ui_role :: string
  ui_parts :: "jsval list"

text \<open>A row of the message table, with the six properties the handler passes.\<close>

record db_message =
  chatId :: string
  message_id :: string
  role :: string
  parts :: "jsval list"
  attachments :: "jsval list"
  createdAt :: nat

text \<open>
  The validated request body. \<open>parsed_body\<close> of a request is \<open>None\<close> when \<open>request.json()\<close>
  or \<open>postRequestBodySchema.parse\<close> throws (the schema is not under src/).
\<close>

record post_request_body =
  body_id :: string
  body_message :: ui_message
  selectedChatModel :: string
  selectedVisibilityType :: string

record request =
  parsed_body :: "post_request_body option"
  x_vercel_id :: "string option"

record delete_request =
  id_param :: "string option"

text \<open>
  What the awaited collaborators throw: a \<open>ChatSDKError\<close> with its code, or anything
  else. The handler's outer \<open>catch\<close> tells the two apart.
\<close>

datatype exn = ChatSDKError string | Unhandled js_exn

text \<open>
  The chunks written into the stream, and the lines written to the console. A text part
  of a message is opened by \<open>text-start\<close> with its identifier, extended by \<open>text-delta\<close>
  (the delta, then the identifier) and closed by \<open>text-end\<close>. The handler itself writes
  \<open>text-delta\<close>, \<open>data-usage\<close> and \<open>finish\<close>; the other chunks come from the stream of the
  model.
\<close>

datatype chunk =
    TextStart string
  | TextDelta string string
  | TextEnd string
  | DataUsage usage
  | Finish
  | ErrorText string
  | ModelChunk jsval

datatype console_entry = Console_log string | Console_warn string | Console_error string

record language_model =
  modelId :: "string option"

text \<open>
  The language model call, as \<open>result.toUIMessageStream\<close> shows it: it streams its chunks and
  ends with the raw usage, or it fails while streaming (after \<open>execute\<close> has returned), and
  then its chunks end with the error chunk of the library and \<open>onFinish\<close> of \<open>streamText\<close>
  is not run.
\<close>

datatype completion = Completed "chunk list" usage | Failed "chunk list"

text \<open>
  What the stream library raises when it assembles the response message from the chunks:
  a \<open>text-delta\<close> or a \<open>text-end\<close> names a text part that no \<open>text-start\<close> has opened.
\<close>

datatype assembly_error = MissingTextPart string

datatype stream_context = ResumableStreamContext string

text \<open>
  What the response is made of: an error response built from a code by
  \<open>ChatSDKError.toResponse\<close>, a JSON response with its status, or a stream. The stream
  has not run when the response is returned: it carries the variables its callbacks
  close over. \<open>Resumable\<close> is the transport of the lines that are commented out in POST.
\<close>

record stream_job =
  job_chatId :: string
  job_text :: string
  job_model :: string

datatype transport = Plain | Resumable string

datatype response =
    ErrorResponse string
  | JsonResponse "chat option" nat
  | StreamResponse transport stream_job

section \<open>The collaborators\<close>

text \<open>
  The calls of the store that the handler awaits; each may throw.
\<close>

datatype db_call =
    GetChatById
  | GetMessagesByChatId
  | SaveChat
  | SaveUserMessage
  | CreateStreamId
  | SaveResponseMessages
  | UpdateChatLastContextById
  | DeleteChatById

text \<open>
  Everything the handler calls and does not define, as one request sees it: the process
  environment, the libraries (\<open>resumable-stream\<close>, \<open>tokenlens\<close>, \<open>ai\<close>, the provider), the
  clock and the UUID generator, and the collaborators of the repository that are not
  under src/ (\<open>auth\<close>, the entitlement table, the message count, the title generator, the
  text of a message, the similarity search, and whether a call of the store throws).
  \<open>createResumableStreamContext\<close> throws Errors only: \<open>Inl\<close> carries the message.
  \<open>fetchModels\<close> is the outcome of the cached catalog fetch.
\<close>

record env =
  network :: network
  REDIS_URL :: "string option"
  createResumableStreamContext :: "string option \<Rightarrow> string + stream_context"
  fetchModels :: "js_exn + jsval"
  getUsage :: "string \<Rightarrow> usage \<Rightarrow> jsval \<Rightarrow> js_exn + usage"
  languageModel :: "string \<Rightarrow> js_exn + language_model"
  streamText :: "language_model \<Rightarrow> string \<Rightarrow> string \<Rightarrow> completion"
  responseMessages :: "chunk list \<Rightarrow> ui_message list"
  streamId_uuid :: string
  delta_uuid :: string
  now :: nat
  finished_at :: nat
  auth :: "session option"
  maxMessagesPerDay :: "string \<Rightarrow> nat"
  getMessageCountByUserId :: "string \<Rightarrow> nat \<Rightarrow> exn + nat"
  generateTitleFromUserMessage :: "ui_message \<Rightarrow> exn + string"
  getTextFromMessage :: "ui_message \<Rightarrow> string"
  searchPerfumesByEmbedding :: "jsval \<Rightarrow> nat \<Rightarrow> exn + perfume list"
  db_fault :: "db_call \<Rightarrow> exn option"

section \<open>The conversation store\<close>

text \<open>
  The persistent state: the conversations by identifier, the messages in the order they
  were saved, and the stream identifiers with their conversation.
\<close>

record db =
  chats :: "string \<rightharpoonup> chat"
  messages :: "db_message list"
  streams :: "(string \<times> string) list"

text \<open>A call of the store throws what \<open>db_fault\<close> says, and then changes nothing.\<close>

definition db_attempt :: "env \<Rightarrow> db_call \<Rightarrow> 'a \<Rightarrow> exn + 'a" where
  "db_attempt e c v = (case db_fault e c of Some x \<Rightarrow> Inl x | None \<Rightarrow> Inr v)"

text \<open>
  The queries of lib/db/queries are not under src/. The specification says of the
  conversation store that it "persists messages, chat metadata, and last-known usage",
  that a conversation is "created on first message if absent" and holds its messages,
  and that delete "deletes the conversation and returns its deleted representation".
\<close>

text \<open>
  Modelled from the spec: \<open>getChatById\<close> (lib/db/queries, not under src/) reads the
  conversation with the identifier, if there is one.
\<close>

definition getChatById :: "env \<Rightarrow> db \<Rightarrow> string \<Rightarrow> exn + chat option" where
  "getChatById e d i = db_attempt e GetChatById (chats d i)"

text \<open>
  Modelled from the spec: \<open>getMessagesByChatId\<close> (lib/db/queries, not under src/) reads
  the messages of the conversation, in the order they were saved.
\<close>

definition getMessagesByChatId :: "env \<Rightarrow> db \<Rightarrow> string \<Rightarrow> exn + db_message list" where
  "getMessagesByChatId e d i =
     db_attempt e GetMessagesByChatId (filter (\<lambda>m. chatId m = i) (messages d))"

text \<open>
  Modelled from the spec: \<open>saveChat\<close> (lib/db/queries, not under src/) creates the
  conversation with its owner, title and visibility; it has no last usage yet.
\<close>

definition saveChat :: "env \<Rightarrow> db \<Rightarrow> string \<Rightarrow> string \<Rightarrow> string \<Rightarrow> string \<Rightarrow> exn + db" where
  "saveChat e d i uid t v =
     db_attempt e SaveChat
       (d\<lparr>chats := (chats d)(i \<mapsto>
            \<lparr>chat_id = i, userId = uid, title = t, visibility = v, lastContext = None\<rparr>)\<rparr>)"

text \<open>
  Modelled from the spec: \<open>saveMessages\<close> (lib/db/queries, not under src/) appends the
  rows it is given. The handler calls it at two places, which the second argument names.
\<close>

definition saveMessages :: "env \<Rightarrow> db_call \<Rightarrow> db \<Rightarrow> db_message list \<Rightarrow> exn + db" where
  "saveMessages e site d ms = db_attempt e site (d\<lparr>messages := messages d @ ms\<rparr>)"

text \<open>
  Modelled from the spec: \<open>createStreamId\<close> (lib/db/queries, not under src/) records the
  stream identifier with its conversation.
\<close>

definition createStreamId :: "env \<Rightarrow> db \<Rightarrow> string \<Rightarrow> string \<Rightarrow> exn + db" where
  "createStreamId e d sid cid =
     db_attempt e CreateStreamId (d\<lparr>streams := streams d @ [(sid, cid)]\<rparr>)"

text \<open>
  Modelled from the spec: \<open>updateChatLastContextById\<close> (lib/db/queries, not under src/)
  stores the usage as the last known usage of the conversation, if the conversation
  exists.
\<close>

definition updateChatLastContextById :: "env \<Rightarrow> db \<Rightarrow> string \<Rightarrow> usage \<Rightarrow> exn + db" where
  "updateChatLastContextById e d cid context =
     db_attempt e UpdateChatLastContextById
       (case chats d cid of
          None \<Rightarrow> d
        | Some c \<Rightarrow> d\<lparr>chats := (chats d)(cid \<mapsto> c\<lparr>lastContext := Some context\<rparr>)\<rparr>)"

text \<open>
  Modelled from the spec: \<open>deleteChatById\<close> (lib/db/queries, not under src/) deletes the
  conversation with its messages and returns the deleted conversation.
\<close>

definition deleteChatById :: "env \<Rightarrow> db \<Rightarrow> string \<Rightarrow> exn + (chat option \<times> db)" where
  "deleteChatById e d i =
     db_attempt e DeleteChatById
       (chats d i,
        d\<lparr>chats := (chats d)(i := None),
          messages := filter (\<lambda>m. chatId m \<noteq> i) (messages d)\<rparr>)"

section \<open>The route handler (src/unnamed/part_000)\<close>

subsection \<open>getTokenlensCatalog and getStreamContext\<close>

definition getTokenlensCatalog :: "env \<Rightarrow> jsval option \<times> console_entry list" where
  "getTokenlensCatalog e =
     (case fetchModels e of
        Inr catalog \<Rightarrow> (Some catalog, [])
      | Inl err \<Rightarrow>
          (None, [Console_warn ''TokenLens: catalog fetch failed, using default catalog'']))"

text \<open>
  \<open>getStreamContext\<close> reads and writes the module variable \<open>globalStreamContext\<close>: the
  function takes its value and returns the value the variable has afterwards, which is
  also the value the function returns.
\<close>

definition getStreamContext ::
  "env \<Rightarrow> stream_context option \<Rightarrow> stream_context option \<times> console_entry list" where
  "getStreamContext e globalStreamContext =
     (case globalStreamContext of
        Some c \<Rightarrow> (Some c, [])
      | None \<Rightarrow>
          (case createResumableStreamContext e (REDIS_URL e) of
             Inr c \<Rightarrow> (Some c, [])
           | Inl message \<Rightarrow>
               (None,
                [if string_includes message ''REDIS_URL''
                 then Console_log '' > Resumable streams are disabled due to missing REDIS_URL''
                 else Console_error message])))"

subsection \<open>The usage reconciler: \<open>onFinish\<close> of \<open>streamText\<close>\<close>

text \<open>Object spread: a property of the source replaces the value in place or is added last.\<close>

fun assign :: "usage \<Rightarrow> string \<Rightarrow> jsval \<Rightarrow> usage" where
  "assign [] k v = [(k, v)]"
| "assign ((k', v') # kvs) k v =
     (if k' = k then (k, v) # kvs else (k', v') # assign kvs k v)"

fun spread :: "usage \<Rightarrow> usage \<Rightarrow> usage" where
  "spread target [] = target"
| "spread target ((k, v) # kvs) = spread (assign target k v) kvs"

text \<open>
  The body of the \<open>try\<close> block, after the catalog has been awaited: \<open>Inl\<close> is a throw, by
  the provider or by \<open>getUsage\<close>.
\<close>

definition enrich_usage :: "env \<Rightarrow> string \<Rightarrow> usage \<Rightarrow> jsval option \<Rightarrow> js_exn + usage" where
  "enrich_usage e selected raw providers =
     (case languageModel e selected of
        Inl err \<Rightarrow> Inl err
      | Inr model \<Rightarrow>
          (case modelId model of
             None \<Rightarrow> Inr raw
           | Some mid \<Rightarrow>
               if mid = [] then Inr raw
               else
                 (case providers of
                    None \<Rightarrow> Inr raw
                  | Some catalog \<Rightarrow>
                      if \<not> truthy catalog then Inr raw
                      else
                        (case getUsage e mid raw catalog of
                           Inl err \<Rightarrow> Inl err
                         | Inr summary \<Rightarrow>
                             Inr (assign (spread raw summary) ''modelId'' (JStr mid))))))"

text \<open>
  The callback: it returns \<open>finalMergedUsage\<close>, the chunk it writes and its console
  lines. The \<open>catch\<close> block turns every throw of the \<open>try\<close> block into the raw usage.
\<close>

definition streamText_onFinish ::
  "env \<Rightarrow> string \<Rightarrow> usage \<Rightarrow> usage \<times> chunk list \<times> console_entry list" where
  "streamText_onFinish e selected raw =
     (case getTokenlensCatalog e of
        (providers, warned) \<Rightarrow>
          (case enrich_usage e selected raw providers of
             Inr finalMergedUsage \<Rightarrow>
               (finalMergedUsage, [DataUsage finalMergedUsage], warned)
           | Inl err \<Rightarrow>
               (raw, [DataUsage raw], warned @ [Console_warn ''TokenLens enrichment failed''])))"

subsection \<open>The stream: \<open>execute\<close> and \<open>onFinish\<close> of \<open>createUIMessageStream\<close>\<close>

record execution =
  written :: "chunk list"
  finalMergedUsage :: "usage option"
  console :: "console_entry list"
  requests :: "fetch_request list"

text \<open>The \<open>catch\<close> block of \<open>execute\<close>.\<close>

definition search_failed :: "env \<Rightarrow> fetch_request list \<Rightarrow> execution" where
  "search_failed e sent =
     \<lparr>written = [TextDelta apology (delta_uuid e), Finish],
      finalMergedUsage = None,
      console = [Console_error ''Error in perfume search:''],
      requests = sent\<rparr>"

text \<open>
  \<open>onError\<close> of \<open>createUIMessageStream\<close>: the text of the error chunk the library writes
  when \<open>execute\<close> throws or a merged stream cannot be read. The body of \<open>execute\<close> is one
  \<open>try\<close> block, and the stream of the model reports its own failures, so no path of the
  model calls it.
\<close>

definition onError :: string where
  "onError = ''Oops, an error occurred!''"

text \<open>
  \<open>execute\<close>: the embedding, the search with limit 5, the prompt, the completion. The
  chunks of the model are merged into the stream; a completion that ends runs the usage
  reconciler, whose chunk follows the chunks of the model.
\<close>

definition execute :: "env \<Rightarrow> stream_job \<Rightarrow> execution" where
  "execute e job =
     (case generateEmbedding (network e) (job_text job) [] of
        (Inl err, sent) \<Rightarrow> search_failed e sent
      | (Inr queryEmbedding, sent) \<Rightarrow>
          (case searchPerfumesByEmbedding e queryEmbedding 5 of
             Inl err \<Rightarrow> search_failed e sent
           | Inr perfumes \<Rightarrow>
               (case languageModel e (job_model job) of
                  Inl err \<Rightarrow> search_failed e sent
                | Inr model \<Rightarrow>
                    (case streamText e model (systemPrompt perfumes) (job_text job) of
                       Failed cs \<Rightarrow>
                         \<lparr>written = cs, finalMergedUsage = None, console = [],
                          requests = sent\<rparr>
                     | Completed cs raw \<Rightarrow>
                         (case streamText_onFinish e (job_model job) raw of
                            (merged, data, warned) \<Rightarrow>
                              \<lparr>written = cs @ data, finalMergedUsage = Some merged,
                               console = warned, requests = sent\<rparr>)))))"

text \<open>
  \<open>onFinish\<close>: the first component is what the callback throws, if it throws. Only the
  update of the last usage is inside a \<open>try\<close>.
\<close>

definition onFinish ::
  "env \<Rightarrow> db \<Rightarrow> string \<Rightarrow> ui_message list \<Rightarrow> usage option
     \<Rightarrow> exn option \<times> db \<times> console_entry list" where
  "onFinish e d cid msgs merged =
     (case saveMessages e SaveResponseMessages d
             (map (\<lambda>currentMessage.
                    \<lparr>chatId = cid, message_id = ui_id currentMessage,
                     role = ui_role currentMessage, parts = ui_parts currentMessage,
                     attachments = [], createdAt = finished_at e\<rparr>) msgs) of
        Inl err \<Rightarrow> (Some err, d, [])
      | Inr d1 \<Rightarrow>
          (case merged of
             None \<Rightarrow> (None, d1, [])
           | Some context \<Rightarrow>
               (case updateChatLastContextById e d1 cid context of
                  Inl err \<Rightarrow> (None, d1, [Console_warn ''Unable to persist last usage for chat''])
                | Inr d2 \<Rightarrow> (None, d2, []))))"

text \<open>
  What \<open>createUIMessageStream\<close> forwards of the chunks written, when it is given an
  \<open>onFinish\<close> callback as it is here: the library (the package \<open>ai\<close>, not part of the
  repository) passes every chunk through the assembly of the response message before it
  forwards it. The first argument is the list of the text parts that are open. A
  \<open>text-delta\<close> or \<open>text-end\<close> for a part that is not open makes the assembly fail: the
  stream ends in that error, and that chunk and the chunks after it are not forwarded.
  The result is the chunks that passed (those, at most, reach the client) and the error.
\<close>

fun forward :: "string list \<Rightarrow> chunk list \<Rightarrow> chunk list \<times> assembly_error option" where
  "forward active [] = ([], None)"
| "forward active (TextStart i # cs) =
     (case forward (i # active) cs of (out, err) \<Rightarrow> (TextStart i # out, err))"
| "forward active (TextDelta delta i # cs) =
     (if i \<in> set active
      then (case forward active cs of (out, err) \<Rightarrow> (TextDelta delta i # out, err))
      else ([], Some (MissingTextPart i)))"
| "forward active (TextEnd i # cs) =
     (if i \<in> set active
      then (case forward (removeAll i active) cs of (out, err) \<Rightarrow> (TextEnd i # out, err))
      else ([], Some (MissingTextPart i)))"
| "forward active (c # cs) =
     (case forward active cs of (out, err) \<Rightarrow> (c # out, err))"

text \<open>
  Running the stream of a response to its end: \<open>execute\<close>, the forwarding of what it has
  written, and \<open>onFinish\<close> on the messages the library has assembled from the chunks.
\<close>

record stream_result =
  sent_chunks :: "chunk list"
  stream_error :: "assembly_error option"
  finish_thrown :: "exn option"
  stored :: db
  logged :: "console_entry list"

definition run_stream :: "env \<Rightarrow> db \<Rightarrow> stream_job \<Rightarrow> stream_result" where
  "run_stream e d job =
     (let ex = execute e job in
      case onFinish e d (job_chatId job) (responseMessages e (written ex)) (finalMergedUsage ex) of
        (thrown, d', warned) \<Rightarrow>
          \<lparr>sent_chunks = fst (forward [] (written ex)),
           stream_error = snd (forward [] (written ex)),
           finish_thrown = thrown, stored = d',
           logged = console ex @ warned\<rparr>)"

subsection \<open>POST\<close>

text \<open>
  From the save of the user message to the \<open>return\<close>. (\<open>uiMessages\<close> is computed before
  and not used.)
\<close>

definition start_stream :: "env \<Rightarrow> db \<Rightarrow> post_request_body \<Rightarrow> (exn + response) \<times> db" where
  "start_stream e d b =
     (case saveMessages e SaveUserMessage d
             [\<lparr>chatId = body_id b, message_id = ui_id (body_message b), role = ''user'',
               parts = ui_parts (body_message b), attachments = [], createdAt = now e\<rparr>] of
        Inl err \<Rightarrow> (Inl err, d)
      | Inr d1 \<Rightarrow>
          (case createStreamId e d1 (streamId_uuid e) (body_id b) of
             Inl err \<Rightarrow> (Inl err, d1)
           | Inr d2 \<Rightarrow>
               (Inr (StreamResponse Plain
                       \<lparr>job_chatId = body_id b,
                        job_text = getTextFromMessage e (body_message b),
                        job_model = selectedChatModel b\<rparr>),
                d2)))"

text \<open>The second \<open>try\<close> block of POST: \<open>Inl\<close> is what it throws.\<close>

definition POST_try :: "env \<Rightarrow> db \<Rightarrow> post_request_body \<Rightarrow> (exn + response) \<times> db" where
  "POST_try e d b =
     (case auth e of
        None \<Rightarrow> (Inr (ErrorResponse ''unauthorized:chat''), d)
      | Some session \<Rightarrow>
          (case user session of
             None \<Rightarrow> (Inr (ErrorResponse ''unauthorized:chat''), d)
           | Some u \<Rightarrow>
               (case getMessageCountByUserId e (user_id u) 24 of
                  Inl err \<Rightarrow> (Inl err, d)
                | Inr messageCount \<Rightarrow>
                    if messageCount > maxMessagesPerDay e (user_type u)
                    then (Inr (ErrorResponse ''rate_limit:chat''), d)
                    else
                      (case getChatById e d (body_id b) of
                         Inl err \<Rightarrow> (Inl err, d)
                       | Inr (Some c) \<Rightarrow>
                           if userId c \<noteq> user_id u
                           then (Inr (ErrorResponse ''forbidden:chat''), d)
                           else
                             (case getMessagesByChatId e d (body_id b) of
                                Inl err \<Rightarrow> (Inl err, d)
                              | Inr messagesFromDb \<Rightarrow> start_stream e d b)
                       | Inr None \<Rightarrow>
                           (case generateTitleFromUserMessage e (body_message b) of
                              Inl err \<Rightarrow> (Inl err, d)
                            | Inr t \<Rightarrow>
                                (case saveChat e d (body_id b) (user_id u) t
                                        (selectedVisibilityType b) of
                                   Inl err \<Rightarrow> (Inl err, d)
                                 | Inr d1 \<Rightarrow> start_stream e d1 b))))))"

definition POST :: "env \<Rightarrow> db \<Rightarrow> request \<Rightarrow> response \<times> db" where
  "POST e d rq =
     (case parsed_body rq of
        None \<Rightarrow> (ErrorResponse ''bad_request:api'', d)
      | Some requestBody \<Rightarrow>
          (case POST_try e d requestBody of
             (Inr r, d') \<Rightarrow> (r, d')
           | (Inl (ChatSDKError code), d') \<Rightarrow> (ErrorResponse code, d')
           | (Inl (Unhandled err), d') \<Rightarrow> (ErrorResponse ''offline:chat'', d')))"

subsection \<open>DELETE\<close>

text \<open>
  DELETE has no \<open>try\<close>: what the store throws leaves the handler (\<open>Inl\<close>). The
  comparison \<open>chat?.userId !== session.user.id\<close> holds when there is no chat.
\<close>

definition DELETE :: "env \<Rightarrow> db \<Rightarrow> delete_request \<Rightarrow> (exn + response) \<times> db" where
  "DELETE e d rq =
     (case id_param rq of
        None \<Rightarrow> (Inr (ErrorResponse ''bad_request:api''), d)
      | Some i \<Rightarrow>
          if i = [] then (Inr (ErrorResponse ''bad_request:api''), d)
          else
            (case auth e of
               None \<Rightarrow> (Inr (ErrorResponse ''unauthorized:chat''), d)
             | Some session \<Rightarrow>
                 (case user session of
                    None \<Rightarrow> (Inr (ErrorResponse ''unauthorized:chat''), d)
                  | Some u \<Rightarrow>
                      (case getChatById e d i of
                         Inl err \<Rightarrow> (Inl err, d)
                       | Inr c \<Rightarrow>
                           if map_option userId c \<noteq> Some (user_id u)
                           then (Inr (ErrorResponse ''forbidden:chat''), d)
                           else
                             (case deleteChatById e d i of
                                Inl err \<Rightarrow> (Inl err, d)
                              | Inr (deletedChat, d') \<Rightarrow>
                                  (Inr (JsonResponse deletedChat 200), d'))))))"

section \<open>The block of a perfume, as the specification words it\<close>

text \<open>
  The specification describes the block of an item as "a formatted block of present
  attributes only, in a fixed field order". \<open>block_of present\<close> is that description: the
  name, then the fields of \<open>field_order\<close> line by line, a line being emitted when its first
  field is present and holding those of its fields that are present. \<open>field_text\<close> is
  the label and the value of a field as the code prints them. The test \<open>present\<close> is a
  parameter: the specification reads it as "not null".
\<close>

datatype field =
    Brand | Description | Rating | Rating_count | Notes | Season | Gender | Longevity
  | Sillage | TimeOfDay | ValueForMoney | Pros | Cons | SimilarPerfumes

fun field_value :: "perfume \<Rightarrow> field \<Rightarrow> jsval" where
  "field_value p Brand = brand p"
| "field_value p Description = description p"
| "field_value p Rating = rating p"
| "field_value p Rating_count = rating_count p"
| "field_value p Notes = notes' p"
| "field_value p Season = season p"
| "field_value p Gender = gender p"
| "field_value p Longevity = longevity p"
| "field_value p Sillage = sillage p"
| "field_value p TimeOfDay = timeOfDay p"
| "field_value p ValueForMoney = valueForMoney p"
| "field_value p Pros = pros p"
| "field_value p Cons = cons p"
| "field_value p SimilarPerfumes = similarPerfumes p"

fun field_text :: "field \<Rightarrow> jsval \<Rightarrow> string" where
  "field_text Brand v = '' ('' @ toString v @ '')''"
| "field_text Description v = ''Opis: '' @ toString v"
| "field_text Rating v = [CHR 0xE2, CHR 0xAD, CHR 0x90] @ '' Ocena: '' @ toString v @ ''/5''"
| "field_text Rating_count v = '' ('' @ toString v @ '' opinii)''"
| "field_text Notes v = ''Nuty zapachowe: '' @ list_or_json v"
| "field_text Season v = ''Sezon: '' @ list_or_json v"
| "field_text Gender v = ''Dla: '' @ list_or_json v"
| "field_text Longevity v =
     ''Trwa'' @ [CHR 0xC5, CHR 0x82] @ ''o'' @ [CHR 0xC5, CHR 0x9B, CHR 0xC4, CHR 0x87] @ '': '' @
     stringify v"
| "field_text Sillage v = ''Sillage: '' @ stringify v"
| "field_text TimeOfDay v = ''Pora dnia: '' @ list_or_json v"
| "field_text ValueForMoney v =
     ''Stosunek jako'' @ [CHR 0xC5, CHR 0x9B] @ ''ci do ceny: '' @ stringify v"
| "field_text Pros v = ''Zalety: '' @ list_or_json v"
| "field_text Cons v = ''Wady: '' @ list_or_json v"
| "field_text SimilarPerfumes v = ''Podobne perfumy: '' @ list_or_json v"

definition field_order :: "field list list" where
  "field_order =
     [Description] # [Rating, Rating_count] # [Notes] # [Season] # [Gender] # [Longevity] #
     [Sillage] # [TimeOfDay] # [ValueForMoney] # [Pros] # [Cons] # [SimilarPerfumes] # []"

definition present_fields :: "(jsval \<Rightarrow> bool) \<Rightarrow> perfume \<Rightarrow> field list \<Rightarrow> string" where
  "present_fields present p fs =
     concat (map (\<lambda>f. field_text f (field_value p f))
               (filter (\<lambda>f. present (field_value p f)) fs))"

fun line_of :: "(jsval \<Rightarrow> bool) \<Rightarrow> perfume \<Rightarrow> field list \<Rightarrow> string" where
  "line_of present p [] = []"
| "line_of present p (f # fs) =
     (if present (field_value p f)
      then field_text f (field_value p f) @ present_fields present p fs @ [CHR 0x0A]
      else [])"

definition block_of :: "(jsval \<Rightarrow> bool) \<Rightarrow> perfume \<Rightarrow> string" where
  "block_of present p =
     ''**'' @ toString (perfume_name p) @ ''**'' @ present_fields present p [Brand] @ [CHR 0x0A] @
     concat (map (line_of present p) field_order)"

definition non_null :: "jsval \<Rightarrow> bool" where
  "non_null v = (v \<noteq> JNull)"

section \<open>Concrete inputs\<close>

text \<open>Answers of the embedding service, and a network that gives one of them.\<close>

definition bad_gateway :: http_response where
  "bad_gateway =
     \<lparr>ok = False, status = 502, statusText = ''Bad Gateway'',
      body = ''<html>502 Bad Gateway</html>'',
      json = Inl (JsError ''Unexpected token < in JSON at position 0'')\<rparr>"

definition too_many_requests :: http_response where
  "too_many_requests =
     \<lparr>ok = False, status = 429, statusText = ''Too Many Requests'',
      body = ''{ '' @ [CHR 0x22] @ ''code'' @ [CHR 0x22] @ '': 429 }'',
      json = Inr (JObj [(''code'', JNum 429)])\<rparr>"

definition empty_data :: http_response where
  "empty_data =
     \<lparr>ok = True, status = 200, statusText = ''OK'',
      body = ''{'' @ [CHR 0x22] @ ''data'' @ [CHR 0x22] @ '':[]}'',
      json = Inr (JObj [(''data'', JArr [])])\<rparr>"

definition embedding_ok :: http_response where
  "embedding_ok =
     \<lparr>ok = True, status = 200, statusText = ''OK'',
      body = ''{'' @ [CHR 0x22] @ ''data'' @ [CHR 0x22] @ '':[{'' @ [CHR 0x22] @ ''embedding'' @
             [CHR 0x22] @ '':[1,0]}]}'',
      json = Inr (JObj [(''data'', JArr [JObj [(''embedding'', JArr [JNum 1, JNum 0])]])])\<rparr>"

definition network_answering :: "http_response \<Rightarrow> network" where
  "network_answering r = \<lparr>OPENAI_API_KEY = Some ''sk-test'', fetch = (\<lambda>k. Inr r)\<rparr>"

text \<open>A perfume nobody has rated yet: its rating and its rating count are 0, not null.\<close>

definition unrated :: perfume where
  "unrated =
     \<lparr>perfume_name = JStr ''Oud Wood'', brand = JStr ''Tom Ford'', description = JNull,
      rating = JNum 0, rating_count = JNum 0, notes' = JArr [JStr ''oud'', JStr ''vanilla''],
      season = JNull, gender = JNull, longevity = JNull, sillage = JNull, timeOfDay = JNull,
      valueForMoney = JNull, pros = JNull, cons = JNull, similarPerfumes = JNull\<rparr>"

text \<open>
  Two users, a store with one conversation of each, a question whose parts carry a file,
  and the request that appends it to a conversation.
\<close>

definition alice :: session_user where
  "alice = \<lparr>user_id = ''alice'', user_type = ''regular''\<rparr>"

definition chat_of_bob :: chat where
  "chat_of_bob =
     \<lparr>chat_id = ''chat-1'', userId = ''bob'', title = ''Oud'', visibility = ''private'',
      lastContext = None\<rparr>"

definition chat_of_alice :: chat where
  "chat_of_alice =
     \<lparr>chat_id = ''chat-2'', userId = ''alice'', title = ''Iris'', visibility = ''private'',
      lastContext = None\<rparr>"

definition store1 :: db where
  "store1 =
     \<lparr>chats = [''chat-1'' \<mapsto> chat_of_bob, ''chat-2'' \<mapsto> chat_of_alice],
      messages = [], streams = []\<rparr>"

definition question :: ui_message where
  "question =
     \<lparr>ui_id = ''m-1'', ui_role = ''user'',
      ui_parts = [JObj [(''type'', JStr ''text''), (''text'', JStr ''oud'')],
                  JObj [(''type'', JStr ''file''), (''url'', JStr ''https://example.com/a.png'')]]\<rparr>"

definition answer :: ui_message where
  "answer =
     \<lparr>ui_id = ''m-2'', ui_role = ''assistant'',
      ui_parts = [JObj [(''type'', JStr ''text''), (''text'', JStr ''Oud Wood'')]]\<rparr>"

definition append_to :: "string \<Rightarrow> request" where
  "append_to cid =
     \<lparr>parsed_body = Some \<lparr>body_id = cid, body_message = question,
                           selectedChatModel = ''chat-model'',
                           selectedVisibilityType = ''private''\<rparr>,
      x_vercel_id = None\<rparr>"

definition the_job :: stream_job where
  "the_job = \<lparr>job_chatId = ''chat-2'', job_text = ''oud'', job_model = ''chat-model''\<rparr>"

definition raw_usage :: usage where
  "raw_usage = [(''inputTokens'', JNum 12), (''outputTokens'', JNum 34)]"

text \<open>
  An environment in which everything works: alice is signed in and has sent 3 of her 100
  messages, the search finds nothing, the model answers, no call of the store throws.
\<close>

definition env1 :: env where
  "env1 =
     \<lparr>network = network_answering embedding_ok,
      REDIS_URL = None,
      createResumableStreamContext =
        (\<lambda>u. case u of None \<Rightarrow> Inl ''REDIS_URL environment variable is not set''
                       | Some x \<Rightarrow> Inr (ResumableStreamContext x)),
      fetchModels = Inr (JObj []),
      getUsage = (\<lambda>m u c. Inr [(''costUSD'', JNum 1)]),
      languageModel = (\<lambda>s. Inr \<lparr>modelId = Some s\<rparr>),
      streamText = (\<lambda>m s t. Completed [ModelChunk (JStr ''Oud Wood'')] raw_usage),
      responseMessages = (\<lambda>cs. [answer]),
      streamId_uuid = ''s-1'',
      delta_uuid = ''u-1'',
      now = 1000,
      finished_at = 1001,
      auth = Some \<lparr>user = Some alice\<rparr>,
      maxMessagesPerDay = (\<lambda>t. 100),
      getMessageCountByUserId = (\<lambda>i h. Inr 3),
      generateTitleFromUserMessage = (\<lambda>m. Inr ''Oud''),
      getTextFromMessage = (\<lambda>m. ''oud''),
      searchPerfumesByEmbedding = (\<lambda>v n. Inr []),
      db_fault = (\<lambda>c. None)\<rparr>"

text \<open>The store refuses one call with a database error.\<close>

definition refusing :: "db_call \<Rightarrow> db_call \<Rightarrow> exn option" where
  "refusing c = (\<lambda>c'. if c' = c then Some (ChatSDKError ''bad_request:database'') else None)"

section \<open>Helper lemmas\<close>

lemma assign_keys: "fst ` set (assign kvs k v) = insert k (fst ` set kvs)"
  by (induction kvs k v rule: assign.induct) (simp_all add: insert_commute insert_absorb2)

lemma spread_keys: "fst ` set (spread target source) = fst ` set target \<union> fst ` set source"
  by (induction target source rule: spread.induct) (simp_all add: assign_keys)

lemma format_perfume_block: "format_perfume = block_of truthy"
  by (rule ext) (simp add: format_perfume_def block_of_def field_order_def present_fields_def)

lemma POST_state:
  "snd (POST e d rq) = (case parsed_body rq of None \<Rightarrow> d | Some b \<Rightarrow> snd (POST_try e d b))"
  by (simp add: POST_def split: option.splits prod.splits sum.splits exn.splits)

lemma POST_stream:
  "fst (POST e d rq) = StreamResponse t job \<Longrightarrow>
     \<exists>b. parsed_body rq = Some b \<and> fst (POST_try e d b) = Inr (StreamResponse t job)"
  by (auto simp: POST_def split: option.splits prod.splits sum.splits exn.splits)

lemma start_stream_plain:
  "fst (start_stream e d b) = Inr (StreamResponse t job) \<Longrightarrow> t = Plain"
  by (auto simp: start_stream_def split: sum.splits)

lemma POST_try_plain:
  "fst (POST_try e d b) = Inr (StreamResponse t job) \<Longrightarrow> t = Plain"
  by (auto simp: POST_try_def split: sum.splits option.splits if_splits dest: start_stream_plain)

lemma POST_plain:
  "fst (POST e d rq) = StreamResponse t job \<Longrightarrow> t = Plain"
  by (auto dest!: POST_stream dest: POST_try_plain)

lemma POST_independent_of_search:
  "POST (e\<lparr>network := n, searchPerfumesByEmbedding := s\<rparr>) d rq = POST e d rq"
  by (simp add: POST_def POST_try_def start_stream_def getChatById_def getMessagesByChatId_def
        saveChat_def saveMessages_def createStreamId_def db_attempt_def
      cong: option.case_cong sum.case_cong prod.case_cong exn.case_cong if_cong)

lemma start_stream_messages:
  "\<exists>new. messages (snd (start_stream e d b)) = messages d @ new
         \<and> list_all (\<lambda>m. attachments m = []) new"
  by (simp add: start_stream_def saveMessages_def createStreamId_def db_attempt_def
      split: option.splits)

lemma POST_try_messages:
  "\<exists>new. messages (snd (POST_try e d b)) = messages d @ new
         \<and> list_all (\<lambda>m. attachments m = []) new"
  using start_stream_messages [of e d b] start_stream_messages [of e "d\<lparr>chats := X\<rparr>" b for X]
  by (auto simp: POST_try_def getChatById_def getMessagesByChatId_def saveChat_def db_attempt_def
      split: sum.splits option.splits)

lemma POST_messages:
  "\<exists>new. messages (snd (POST e d rq)) = messages d @ new
         \<and> list_all (\<lambda>m. attachments m = []) new"
  using POST_try_messages [of e d]
  by (cases "parsed_body rq") (simp_all add: POST_state)

lemma onFinish_messages:
  "\<exists>new. messages (fst (snd (onFinish e d cid msgs merged))) = messages d @ new
         \<and> list_all (\<lambda>m. attachments m = []) new"
  by (simp add: onFinish_def saveMessages_def updateChatLastContextById_def db_attempt_def
        list_all_iff
      split: option.splits)

lemma run_stream_messages:
  "\<exists>new. messages (stored (run_stream e d job)) = messages d @ new
         \<and> list_all (\<lambda>m. attachments m = []) new"
  using onFinish_messages [of e d "job_chatId job" "responseMessages e (written (execute e job))"
     "finalMergedUsage (execute e job)"]
  by (auto simp: run_stream_def Let_def split: prod.splits)

lemma appended_drop:
  "ys = xs @ new \<Longrightarrow> list_all P new \<Longrightarrow>
     ys = xs @ drop (length xs) ys \<and> list_all P (drop (length xs) ys)"
  by simp

lemma run_stream_chunks:
  "sent_chunks (run_stream e d job) = fst (forward [] (written (execute e job)))
   \<and> stream_error (run_stream e d job) = snd (forward [] (written (execute e job)))"
  by (simp add: run_stream_def Let_def split: prod.splits)

lemma apology_not_forwarded:
  "forward [] [TextDelta apology i, Finish] = ([], Some (MissingTextPart i))"
  by simp

lemma execute_embedding_failed:
  "fst (generateEmbedding (network e) (job_text job) []) = Inl err \<Longrightarrow>
     written (execute e job) = [TextDelta apology (delta_uuid e), Finish]"
  by (cases "generateEmbedding (network e) (job_text job) []")
     (simp add: execute_def search_failed_def)

lemma execute_search_failed:
  "fst (generateEmbedding (network e) (job_text job) []) = Inr v \<Longrightarrow>
   searchPerfumesByEmbedding e v 5 = Inl err \<Longrightarrow>
     written (execute e job) = [TextDelta apology (delta_uuid e), Finish]"
  by (cases "generateEmbedding (network e) (job_text job) []")
     (simp add: execute_def search_failed_def)

lemma search_failure_not_forwarded:
  "(\<exists>err. fst (generateEmbedding (network e) (job_text job) []) = Inl err)
     \<or> (\<exists>v err. fst (generateEmbedding (network e) (job_text job) []) = Inr v
                \<and> searchPerfumesByEmbedding e v 5 = Inl err) \<Longrightarrow>
   written (execute e job) = [TextDelta apology (delta_uuid e), Finish]
   \<and> sent_chunks (run_stream e d job) = []
   \<and> stream_error (run_stream e d job) = Some (MissingTextPart (delta_uuid e))"
  using execute_embedding_failed [of e job] execute_search_failed [of e job]
  by (auto simp: run_stream_chunks)

lemma POST_over_quota:
  "parsed_body rq = Some b \<Longrightarrow> auth e = Some s \<Longrightarrow> user s = Some u \<Longrightarrow>
   getMessageCountByUserId e (user_id u) 24 = Inr n \<Longrightarrow>
   n > maxMessagesPerDay e (user_type u) \<Longrightarrow>
     POST e d rq = (ErrorResponse ''rate_limit:chat'', d)"
  by (simp add: POST_def POST_try_def)

lemmas example_defs =
  bad_gateway_def too_many_requests_def empty_data_def embedding_ok_def network_answering_def
  unrated_def alice_def chat_of_bob_def chat_of_alice_def store1_def question_def answer_def
  append_to_def the_job_def raw_usage_def env1_def refusing_def

lemmas handler_defs =
  POST_def POST_try_def start_stream_def DELETE_def getChatById_def getMessagesByChatId_def
  saveChat_def saveMessages_def createStreamId_def updateChatLastContextById_def
  deleteChatById_def db_attempt_def

lemmas stream_defs =
  run_stream_def execute_def search_failed_def onFinish_def streamText_onFinish_def
  getTokenlensCatalog_def enrich_usage_def generateEmbedding_def generateEmbedding_try_def
  read_embedding_def opt_member_def opt_index0_def error_message_def

section \<open>Properties\<close>

subsection \<open>The request handler: guards\<close>

text \<open>
  Claim C1, as the code has it. For an authenticated caller and a conversation of another
  owner, POST leaves the store as it was, and it answers \<open>forbidden:chat\<close> when the
  caller's message count was read and does not exceed the quota and the lookup of the
  conversation did not throw. DELETE, for a conversation that is absent or belongs to
  another owner, leaves the store as it was, and answers \<open>forbidden:chat\<close> when the
  lookup did not throw.
\<close>

theorem not_owner_forbidden:
  assumes "auth e = Some s" and "user s = Some u"
  shows "(parsed_body rq = Some b \<and> chats d (body_id b) = Some c \<and> userId c \<noteq> user_id u \<longrightarrow>
            snd (POST e d rq) = d
            \<and> (getMessageCountByUserId e (user_id u) 24 = Inr n
               \<and> n \<le> maxMessagesPerDay e (user_type u) \<and> db_fault e GetChatById = None \<longrightarrow>
               fst (POST e d rq) = ErrorResponse ''forbidden:chat''))
       \<and> (id_param dq = Some i \<and> i \<noteq> []
            \<and> (chats d i = None \<or> (\<exists>c'. chats d i = Some c' \<and> userId c' \<noteq> user_id u)) \<longrightarrow>
            snd (DELETE e d dq) = d
            \<and> (db_fault e GetChatById = None \<longrightarrow>
               fst (DELETE e d dq) = Inr (ErrorResponse ''forbidden:chat'')))"
  using assms
  by (auto simp: handler_defs split: sum.splits option.splits exn.splits)

theorem not_owner_forbidden_witness:
  "auth env1 = Some \<lparr>user = Some alice\<rparr>
   \<and> chats store1 ''chat-1'' = Some chat_of_bob \<and> userId chat_of_bob \<noteq> user_id alice
   \<and> getMessageCountByUserId env1 (user_id alice) 24 = Inr 3
   \<and> 3 \<le> maxMessagesPerDay env1 (user_type alice)
   \<and> snd (POST env1 store1 (append_to ''chat-1'')) = store1
   \<and> fst (POST env1 store1 (append_to ''chat-1'')) = ErrorResponse ''forbidden:chat''
   \<and> snd (DELETE env1 store1 \<lparr>id_param = Some ''chat-1''\<rparr>) = store1
   \<and> fst (DELETE env1 store1 \<lparr>id_param = Some ''chat-1''\<rparr>) = Inr (ErrorResponse ''forbidden:chat'')
   \<and> chats store1 ''chat-9'' = None
   \<and> snd (DELETE env1 store1 \<lparr>id_param = Some ''chat-9''\<rparr>) = store1
   \<and> fst (DELETE env1 store1 \<lparr>id_param = Some ''chat-9''\<rparr>) = Inr (ErrorResponse ''forbidden:chat'')"
  using not_owner_forbidden
          [where e = env1 and s = "\<lparr>user = Some alice\<rparr>" and u = alice and d = store1
             and rq = "append_to ''chat-1''" and c = chat_of_bob and n = 3
             and b = "\<lparr>body_id = ''chat-1'', body_message = question,
                       selectedChatModel = ''chat-model'', selectedVisibilityType = ''private''\<rparr>"
             and dq = "\<lparr>id_param = Some ''chat-1''\<rparr>" and i = "''chat-1''"]
        not_owner_forbidden
          [where e = env1 and s = "\<lparr>user = Some alice\<rparr>" and u = alice and d = store1
             and rq = "append_to ''chat-1''" and c = chat_of_bob and n = 3
             and b = "\<lparr>body_id = ''chat-1'', body_message = question,
                       selectedChatModel = ''chat-model'', selectedVisibilityType = ''private''\<rparr>"
             and dq = "\<lparr>id_param = Some ''chat-9''\<rparr>" and i = "''chat-9''"]
  by (simp add: example_defs)

text \<open>
  Claim C1 as the specification states it fails: the quota is checked before the owner.
  Alice has sent 101 of her 100 messages and appends to a conversation of Bob: the answer
  is \<open>rate_limit:chat\<close>, not \<open>forbidden:chat\<close>. And when the lookup of the conversation
  throws a database error, that error is the answer.
\<close>

theorem not_owner_rate_limited_counterexample:
  "chats store1 ''chat-1'' = Some chat_of_bob \<and> userId chat_of_bob = ''bob''
   \<and> auth (env1\<lparr>getMessageCountByUserId := (\<lambda>i h. Inr 101)\<rparr>) = Some \<lparr>user = Some alice\<rparr>
   \<and> user_id alice = ''alice''
   \<and> POST (env1\<lparr>getMessageCountByUserId := (\<lambda>i h. Inr 101)\<rparr>) store1 (append_to ''chat-1'')
       = (ErrorResponse ''rate_limit:chat'', store1)
   \<and> POST (env1\<lparr>db_fault := refusing GetChatById\<rparr>) store1 (append_to ''chat-1'')
       = (ErrorResponse ''bad_request:database'', store1)"
  by (simp add: example_defs handler_defs)

text \<open>
  Claim C2. For every request whose body passes validation, a caller without a session,
  or with a session that has no user, gets \<open>unauthorized:chat\<close> and the store is as it
  was: no conversation created, no message saved, no stream identifier created. The
  environment is arbitrary, so this holds whatever the store would have done.
\<close>

theorem POST_unauthenticated:
  assumes "parsed_body rq = Some b"
    and "auth e = None \<or> (\<exists>s. auth e = Some s \<and> user s = None)"
  shows "POST e d rq = (ErrorResponse ''unauthorized:chat'', d)"
  using assms by (auto simp: POST_def POST_try_def)

theorem POST_unauthenticated_witness:
  "parsed_body (append_to ''chat-9'') \<noteq> None \<and> auth (env1\<lparr>auth := None\<rparr>) = None
   \<and> POST (env1\<lparr>auth := None\<rparr>) store1 (append_to ''chat-9'')
       = (ErrorResponse ''unauthorized:chat'', store1)
   \<and> POST (env1\<lparr>auth := Some \<lparr>user = None\<rparr>\<rparr>) store1 (append_to ''chat-9'')
       = (ErrorResponse ''unauthorized:chat'', store1)"
  using POST_unauthenticated [of "append_to ''chat-9''" _ "env1\<lparr>auth := None\<rparr>" store1]
        POST_unauthenticated
          [of "append_to ''chat-9''" _ "env1\<lparr>auth := Some \<lparr>user = None\<rparr>\<rparr>" store1]
  by (simp add: append_to_def env1_def)

text \<open>
  Claim C3 does not hold of the code at the quota itself: the guard is
  \<open>messageCount > maxMessagesPerDay\<close>, so only a count above the quota is refused (lemma
  \<open>POST_over_quota\<close>). Alice has sent 100 messages in the last 24 hours, her
  quota is 100, and her next message to her own conversation is accepted: the response is
  the stream, the message is saved and a stream identifier is created.
\<close>

theorem POST_at_quota_accepted:
  "getMessageCountByUserId (env1\<lparr>getMessageCountByUserId := (\<lambda>i h. Inr 100)\<rparr>)
       (user_id alice) 24 = Inr 100
   \<and> maxMessagesPerDay (env1\<lparr>getMessageCountByUserId := (\<lambda>i h. Inr 100)\<rparr>)
       (user_type alice) = 100
   \<and> POST (env1\<lparr>getMessageCountByUserId := (\<lambda>i h. Inr 100)\<rparr>) store1 (append_to ''chat-2'')
       = (StreamResponse Plain the_job,
          store1\<lparr>messages :=
                   [\<lparr>chatId = ''chat-2'', message_id = ''m-1'', role = ''user'',
                     parts = ui_parts question, attachments = [], createdAt = 1000\<rparr>],
                 streams := [(''s-1'', ''chat-2'')]\<rparr>)"
  by (simp add: example_defs handler_defs)

subsection \<open>The prompt assembler\<close>

text \<open>
  Claim C4, as the code has it. The prompt is a function of the list of items. The block
  of an item is the block the specification describes when "present" is read as truthy:
  not null, not 0, not the empty string; the name is always printed, and the rating count
  only in the line of a truthy rating. For the empty list the prompt is the head of the
  template, the fallback sentence and the tail, and does not contain the heading of the
  context block; for a non-empty list it is the head, the heading, the blocks joined by
  the separator, the instruction after them, and the tail.
\<close>

theorem systemPrompt_rendering:
  "format_perfume p = block_of truthy p
   \<and> systemPrompt [] = prompt_head @ fallback_sentence @ prompt_tail
   \<and> \<not> string_includes (systemPrompt []) context_intro
   \<and> systemPrompt (p # ps) =
       prompt_head @ context_intro @
       join_strings block_separator (map (block_of truthy) (p # ps)) @
       context_outro @ prompt_tail"
proof -
  have "\<not> string_includes (systemPrompt []) context_intro"
    by (simp add: systemPrompt_def prompt_head_def fallback_sentence_def prompt_tail_def
          context_intro_def)
  then show ?thesis
    by (simp add: systemPrompt_def perfumesContext_def format_perfume_block
          del: join_strings.simps)
qed

theorem systemPrompt_rendering_witness:
  "systemPrompt [unrated, unrated] =
     prompt_head @ context_intro @
     ''**Oud Wood** (Tom Ford)'' @ [CHR 0x0A] @ ''Nuty zapachowe: oud, vanilla'' @ [CHR 0x0A] @
     [CHR 0x0A, CHR 0x0A] @ ''---'' @ [CHR 0x0A, CHR 0x0A] @
     ''**Oud Wood** (Tom Ford)'' @ [CHR 0x0A] @ ''Nuty zapachowe: oud, vanilla'' @ [CHR 0x0A] @
     context_outro @ prompt_tail"
  using systemPrompt_rendering [of unrated "[unrated]"]
  by (simp add: unrated_def block_of_def field_order_def present_fields_def block_separator_def
        list_or_json_def array_join_def)

text \<open>
  Claim C4 as the specification states it fails: the block does not hold exactly the
  attributes that are not null. The rating \<open>0\<close> and the rating count \<open>0\<close> of an unrated
  perfume are not null, and the block has no rating line.
\<close>

theorem format_perfume_non_null_counterexample:
  "rating unrated \<noteq> JNull \<and> rating_count unrated \<noteq> JNull
   \<and> format_perfume unrated =
       ''**Oud Wood** (Tom Ford)'' @ [CHR 0x0A] @ ''Nuty zapachowe: oud, vanilla'' @ [CHR 0x0A]
   \<and> block_of non_null unrated =
       ''**Oud Wood** (Tom Ford)'' @ [CHR 0x0A] @
       [CHR 0xE2, CHR 0xAD, CHR 0x90] @ '' Ocena: 0/5 (0 opinii)'' @ [CHR 0x0A] @
       ''Nuty zapachowe: oud, vanilla'' @ [CHR 0x0A]
   \<and> format_perfume unrated \<noteq> block_of non_null unrated"
  by (simp add: unrated_def format_perfume_def block_of_def field_order_def present_fields_def
        non_null_def list_or_json_def array_join_def number_to_string_def nat_digits.simps)

subsection \<open>The usage reconciler\<close>

text \<open>
  Claim C5. The callback returns in every case, with a usage object that has every key of
  the raw usage, and writes it into the stream. When the model has no identifier, when
  the catalog fetch fails, when the provider throws and when \<open>getUsage\<close> throws, the
  object is the raw usage itself.
\<close>

theorem usage_reconciliation_falls_back:
  "(\<exists>merged warned. streamText_onFinish e selected raw = (merged, [DataUsage merged], warned)
      \<and> fst ` set raw \<subseteq> fst ` set merged)
   \<and> ((\<exists>m. languageModel e selected = Inr m \<and> (modelId m = None \<or> modelId m = Some []))
        \<longrightarrow> fst (streamText_onFinish e selected raw) = raw)
   \<and> ((\<exists>err. fetchModels e = Inl err) \<longrightarrow> fst (streamText_onFinish e selected raw) = raw)
   \<and> ((\<exists>err. languageModel e selected = Inl err)
        \<longrightarrow> fst (streamText_onFinish e selected raw) = raw)
   \<and> ((\<exists>m mid catalog err. languageModel e selected = Inr m \<and> modelId m = Some mid
          \<and> fetchModels e = Inr catalog \<and> getUsage e mid raw catalog = Inl err)
        \<longrightarrow> fst (streamText_onFinish e selected raw) = raw)"
  by (auto simp: streamText_onFinish_def getTokenlensCatalog_def enrich_usage_def assign_keys
        spread_keys
      split: sum.splits option.splits prod.splits)

theorem usage_reconciliation_falls_back_witness:
  "languageModel (env1\<lparr>languageModel := (\<lambda>s. Inr \<lparr>modelId = None\<rparr>)\<rparr>) ''chat-model''
     = Inr \<lparr>modelId = None\<rparr>
   \<and> fst (streamText_onFinish (env1\<lparr>languageModel := (\<lambda>s. Inr \<lparr>modelId = None\<rparr>)\<rparr>)
            ''chat-model'' raw_usage) = raw_usage
   \<and> fetchModels (env1\<lparr>fetchModels := Inl (JsError ''fetch failed'')\<rparr>)
     = Inl (JsError ''fetch failed'')
   \<and> fst (streamText_onFinish (env1\<lparr>fetchModels := Inl (JsError ''fetch failed'')\<rparr>)
            ''chat-model'' raw_usage) = raw_usage
   \<and> languageModel (env1\<lparr>languageModel := (\<lambda>s. Inl (JsError ''no such model''))\<rparr>) ''chat-model''
     = Inl (JsError ''no such model'')
   \<and> fst (streamText_onFinish (env1\<lparr>languageModel := (\<lambda>s. Inl (JsError ''no such model''))\<rparr>)
            ''chat-model'' raw_usage) = raw_usage
   \<and> getUsage (env1\<lparr>getUsage := (\<lambda>m u c. Inl (JsError ''unknown model''))\<rparr>)
        ''chat-model'' raw_usage (JObj [])
     = Inl (JsError ''unknown model'')
   \<and> fst (streamText_onFinish (env1\<lparr>getUsage := (\<lambda>m u c. Inl (JsError ''unknown model''))\<rparr>)
            ''chat-model'' raw_usage) = raw_usage"
  using usage_reconciliation_falls_back
          [of "env1\<lparr>languageModel := (\<lambda>s. Inr \<lparr>modelId = None\<rparr>)\<rparr>" "''chat-model''" raw_usage]
        usage_reconciliation_falls_back
          [of "env1\<lparr>fetchModels := Inl (JsError ''fetch failed'')\<rparr>" "''chat-model''" raw_usage]
        usage_reconciliation_falls_back
          [of "env1\<lparr>languageModel := (\<lambda>s. Inl (JsError ''no such model''))\<rparr>" "''chat-model''"
              raw_usage]
        usage_reconciliation_falls_back
          [of "env1\<lparr>getUsage := (\<lambda>m u c. Inl (JsError ''unknown model''))\<rparr>" "''chat-model''"
              raw_usage]
  by (simp add: env1_def)

subsection \<open>The streaming phase\<close>

text \<open>
  Claim C6 does not hold of the code. The response of POST is decided before the stream
  runs, and the \<open>catch\<close> block of \<open>execute\<close> does write the apology and the finish chunk
  (lemma \<open>search_failure_not_forwarded\<close>, for every failure of the embedding or of the
  search). But it writes the \<open>text-delta\<close> under a fresh identifier with no \<open>text-start\<close>
  before it, so the stream library cannot assemble it into the response message: the
  stream ends in an error and no chunk is forwarded. Here the embedding service answers
  502: the response is the stream, the two chunks are written, none is sent.
\<close>

theorem apology_not_delivered:
  "fst (generateEmbedding (network (env1\<lparr>network := network_answering bad_gateway\<rparr>))
          (job_text the_job) [])
     = Inl (JsError ''Failed to generate embedding: OpenAI API error: 502 Bad Gateway - {}'')
   \<and> fst (POST (env1\<lparr>network := network_answering bad_gateway\<rparr>) store1 (append_to ''chat-2''))
     = StreamResponse Plain the_job
   \<and> written (execute (env1\<lparr>network := network_answering bad_gateway\<rparr>) the_job)
     = [TextDelta apology ''u-1'', Finish]
   \<and> sent_chunks (run_stream (env1\<lparr>network := network_answering bad_gateway\<rparr>) store1 the_job)
     = []
   \<and> stream_error (run_stream (env1\<lparr>network := network_answering bad_gateway\<rparr>) store1 the_job)
     = Some (MissingTextPart ''u-1'')"
  by (simp add: example_defs handler_defs stream_defs number_to_string_def nat_digits.simps)

text \<open>
  Claim C7, as the code has it. When the save of the response messages succeeds, the
  finish callback throws nothing, whatever the update of the last usage does; when that
  update throws, a warning is logged and the conversations are as they were. When the
  save of the response messages throws, the callback throws the same error and the store
  is as it was.
\<close>

theorem finish_persistence:
  "(db_fault e SaveResponseMessages = None \<longrightarrow> finish_thrown (run_stream e d job) = None)
   \<and> (db_fault e SaveResponseMessages = None \<and> db_fault e UpdateChatLastContextById = Some x
        \<and> finalMergedUsage (execute e job) \<noteq> None \<longrightarrow>
        logged (run_stream e d job) =
          console (execute e job) @ [Console_warn ''Unable to persist last usage for chat'']
        \<and> chats (stored (run_stream e d job)) = chats d)
   \<and> (db_fault e SaveResponseMessages = Some x \<longrightarrow>
        finish_thrown (run_stream e d job) = Some x \<and> stored (run_stream e d job) = d)"
  by (auto simp: run_stream_def onFinish_def Let_def saveMessages_def
        updateChatLastContextById_def db_attempt_def
      split: option.splits)

theorem finish_persistence_witness:
  "db_fault (env1\<lparr>db_fault := refusing UpdateChatLastContextById\<rparr>) SaveResponseMessages = None
   \<and> db_fault (env1\<lparr>db_fault := refusing UpdateChatLastContextById\<rparr>) UpdateChatLastContextById
       = Some (ChatSDKError ''bad_request:database'')
   \<and> finalMergedUsage (execute (env1\<lparr>db_fault := refusing UpdateChatLastContextById\<rparr>) the_job)
       \<noteq> None
   \<and> finish_thrown (run_stream (env1\<lparr>db_fault := refusing UpdateChatLastContextById\<rparr>) store1 the_job)
       = None
   \<and> logged (run_stream (env1\<lparr>db_fault := refusing UpdateChatLastContextById\<rparr>) store1 the_job)
       = [Console_warn ''Unable to persist last usage for chat'']
   \<and> chats (stored (run_stream (env1\<lparr>db_fault := refusing UpdateChatLastContextById\<rparr>) store1 the_job))
       = chats store1
   \<and> db_fault (env1\<lparr>db_fault := refusing SaveResponseMessages\<rparr>) SaveResponseMessages
       = Some (ChatSDKError ''bad_request:database'')
   \<and> stored (run_stream (env1\<lparr>db_fault := refusing SaveResponseMessages\<rparr>) store1 the_job) = store1"
  using finish_persistence
          [of "env1\<lparr>db_fault := refusing UpdateChatLastContextById\<rparr>" store1 the_job
              "ChatSDKError ''bad_request:database''"]
        finish_persistence
          [of "env1\<lparr>db_fault := refusing SaveResponseMessages\<rparr>" store1 the_job
              "ChatSDKError ''bad_request:database''"]
  by (simp add: example_defs stream_defs)

text \<open>
  Claim C7 as the specification states it fails: the save of the response messages is
  not inside a \<open>try\<close>. When the store refuses it, the finish callback throws the error
  and nothing is logged.
\<close>

theorem finish_save_thrown_counterexample:
  "finish_thrown (run_stream (env1\<lparr>db_fault := refusing SaveResponseMessages\<rparr>) store1 the_job)
     = Some (ChatSDKError ''bad_request:database'')
   \<and> logged (run_stream (env1\<lparr>db_fault := refusing SaveResponseMessages\<rparr>) store1 the_job) = []"
  by (simp add: example_defs stream_defs handler_defs)

subsection \<open>Resumable streams\<close>

text \<open>
  Claim C8, as the code has it. POST never answers through the resumable-stream context:
  every stream it returns is the plain one, whatever the environment holds. The function
  \<open>getStreamContext\<close>, which POST does not call, returns the context when it can be
  created. When the creation throws, it returns no context and writes one line to the
  console: the notice that resumable streams are disabled when the message of the error
  names \<open>REDIS_URL\<close>, the error otherwise. It throws in neither case.
\<close>

theorem POST_stream_is_plain:
  "(\<forall>sid job. fst (POST e d rq) \<noteq> StreamResponse (Resumable sid) job)
   \<and> (\<forall>msg. createResumableStreamContext e (REDIS_URL e) = Inl msg
         \<longrightarrow> getStreamContext e None =
               (None,
                [if string_includes msg ''REDIS_URL''
                 then Console_log '' > Resumable streams are disabled due to missing REDIS_URL''
                 else Console_error msg]))
   \<and> (\<forall>c. createResumableStreamContext e (REDIS_URL e) = Inr c
         \<longrightarrow> getStreamContext e None = (Some c, []))"
  using POST_plain [of e d rq]
  by (auto simp: getStreamContext_def)

theorem POST_stream_is_plain_witness:
  "createResumableStreamContext env1 (REDIS_URL env1)
     = Inl ''REDIS_URL environment variable is not set''
   \<and> getStreamContext env1 None =
       (None, [Console_log '' > Resumable streams are disabled due to missing REDIS_URL''])
   \<and> createResumableStreamContext (env1\<lparr>REDIS_URL := Some ''redis://localhost:6379''\<rparr>)
       (REDIS_URL (env1\<lparr>REDIS_URL := Some ''redis://localhost:6379''\<rparr>))
     = Inr (ResumableStreamContext ''redis://localhost:6379'')
   \<and> getStreamContext (env1\<lparr>REDIS_URL := Some ''redis://localhost:6379''\<rparr>) None
     = (Some (ResumableStreamContext ''redis://localhost:6379''), [])"
  using POST_stream_is_plain [of env1 store1 "append_to ''chat-2''"]
        POST_stream_is_plain
          [of "env1\<lparr>REDIS_URL := Some ''redis://localhost:6379''\<rparr>" store1 "append_to ''chat-2''"]
  by (simp add: env1_def)

text \<open>
  Claim C8 as the specification states it fails: with the connection string present, and
  a context that could be created, POST still returns the plain stream.
\<close>

theorem POST_not_resumable_counterexample:
  "REDIS_URL (env1\<lparr>REDIS_URL := Some ''redis://localhost:6379''\<rparr>) = Some ''redis://localhost:6379''
   \<and> fst (getStreamContext (env1\<lparr>REDIS_URL := Some ''redis://localhost:6379''\<rparr>) None)
     = Some (ResumableStreamContext ''redis://localhost:6379'')
   \<and> fst (POST (env1\<lparr>REDIS_URL := Some ''redis://localhost:6379''\<rparr>) store1 (append_to ''chat-2''))
     = StreamResponse Plain the_job"
  by (simp add: example_defs handler_defs getStreamContext_def)

subsection \<open>Attachments\<close>

text \<open>
  Claim C10. POST only appends to the saved messages, and so does the stream when it
  finishes; every message either of them appends has the empty list of attachments,
  whatever the parts of the request's message carry.
\<close>

theorem persisted_attachments_empty:
  "messages (snd (POST e d rq)) =
     messages d @ drop (length (messages d)) (messages (snd (POST e d rq)))
   \<and> list_all (\<lambda>m. attachments m = [])
       (drop (length (messages d)) (messages (snd (POST e d rq))))
   \<and> messages (stored (run_stream e d job)) =
     messages d @ drop (length (messages d)) (messages (stored (run_stream e d job)))
   \<and> list_all (\<lambda>m. attachments m = [])
       (drop (length (messages d)) (messages (stored (run_stream e d job))))"
proof -
  obtain new where "messages (snd (POST e d rq)) = messages d @ new"
    and "list_all (\<lambda>m. attachments m = []) new"
    using POST_messages by blast
  from appended_drop [OF this]
  have p: "messages (snd (POST e d rq)) =
     messages d @ drop (length (messages d)) (messages (snd (POST e d rq)))
   \<and> list_all (\<lambda>m. attachments m = [])
       (drop (length (messages d)) (messages (snd (POST e d rq))))" .
  obtain new' where "messages (stored (run_stream e d job)) = messages d @ new'"
    and "list_all (\<lambda>m. attachments m = []) new'"
    using run_stream_messages by blast
  from appended_drop [OF this] p show ?thesis by blast
qed

theorem persisted_attachments_empty_witness:
  "messages (snd (POST env1 store1 (append_to ''chat-2''))) =
     [\<lparr>chatId = ''chat-2'', message_id = ''m-1'', role = ''user'', parts = ui_parts question,
       attachments = [], createdAt = 1000\<rparr>]
   \<and> list_all (\<lambda>m. attachments m = [])
       (drop (length (messages store1)) (messages (snd (POST env1 store1 (append_to ''chat-2'')))))
   \<and> messages (stored (run_stream env1 store1 the_job)) =
     [\<lparr>chatId = ''chat-2'', message_id = ''m-2'', role = ''assistant'', parts = ui_parts answer,
       attachments = [], createdAt = 1001\<rparr>]
   \<and> list_all (\<lambda>m. attachments m = [])
       (drop (length (messages store1)) (messages (stored (run_stream env1 store1 the_job))))"
  using persisted_attachments_empty [of env1 store1 "append_to ''chat-2''" the_job]
  by (simp add: example_defs handler_defs stream_defs)

subsection \<open>The embedding client\<close>




end
